theory Spec2Isabelle
  imports Main
begin

section \<open>The phone-number authentication dialog (web/src/components/auth.tsx)\<close>

text \<open>
  The component file holds two React components. \<open>Auth\<close> shows the stored key in masked
  form with a Clear link and mounts \<open>AuthDialog\<close>; \<open>AuthDialog\<close> is the modal form that
  exchanges a phone number for an access token. Component state (\<open>useState\<close>, the form
  library's field value and field message, the pending \<open>setTimeout\<close>) is a record that
  the handlers take and return. Calls that leave the component (the remote request, the
  dispatch into shared state, the callbacks passed as props) are returned as a list, in
  the order the handler makes them, and the enclosing \<open>Auth\<close> component carries them out.
\<close>

subsection \<open>Shared playground state\<close>

text \<open>
  \<open>usePlaygroundState()\<close> yields \<open>pgState\<close>, \<open>dispatch\<close>, \<open>showAuthDialog\<close> and
  \<open>setShowAuthDialog\<close>. Of \<open>pgState\<close> the component reads one field,
  \<open>openaiAPIKey\<close> (a string or null); the other fields of the shared state are the
  extension part of the record.
\<close>

record playground_state =
  openaiAPIKey :: "string option"

datatype action = SET_API_KEY "string option"

text \<open>
  Modelled from the spec: the reducer behind \<open>dispatch\<close> lives in
  hooks/use-playground-state, which is not among the sources. The spec gives the action
  as \<open>{ type: "SET_API_KEY", payload: string | null }\<close>, says that shared state is
  "mutated by dispatched actions (SET_API_KEY)", that the returned token is stored "in
  shared state" and that "setting payload to null clears authentication". The reducer
  therefore stores the payload as the key and leaves every other field alone.
\<close>

fun reducer :: "'a playground_state_scheme \<Rightarrow> action \<Rightarrow> 'a playground_state_scheme" where
  "reducer st (SET_API_KEY payload) = st\<lparr>openaiAPIKey := payload\<rparr>"

text \<open>
  JavaScript truthiness of \<open>pgState.openaiAPIKey\<close>, as used by \<open>&&\<close> and \<open>||\<close>: null and
  the empty string are falsy, every other string is truthy.
\<close>

fun truthy :: "string option \<Rightarrow> bool" where
  "truthy None = False"
| "truthy (Some k) = (k \<noteq> [])"

subsection \<open>The status indicator\<close>

text \<open>
  Modelled from the spec: \<open>ellipsisMiddle\<close> is imported from lib/utils, which is not
  among the sources. The spec describes its result as "a masked form of the key (first N
  and last N characters visible, middle elided)" and, for the call \<open>ellipsisMiddle(key, 4, 4)\<close>,
  as "showing exactly the first 4 and last 4 characters with an ellipsis between".
\<close>

definition ellipsisMiddle :: "string \<Rightarrow> nat \<Rightarrow> nat \<Rightarrow> string" where
  "ellipsisMiddle s startLength endLength =
     take startLength s @ ''...'' @ drop (length s - endLength) s"

text \<open>
  What \<open>Auth\<close> renders above the dialog:
  \<open>{pgState.openaiAPIKey && (<div> ... {ellipsisMiddle(pgState.openaiAPIKey, 4, 4)} ... Clear</div>)}\<close>.
  \<open>None\<close> stands for "nothing rendered", \<open>Some m\<close> for the block showing the masked
  key \<open>m\<close> and the Clear link.
\<close>

definition Auth_indicator :: "'a playground_state_scheme \<Rightarrow> string option" where
  "Auth_indicator pg =
     (if truthy (openaiAPIKey pg) then Some (ellipsisMiddle (the (openaiAPIKey pg)) 4 4)
      else None)"

subsection \<open>Calls leaving a handler\<close>

datatype call =
    Fetch string
  | ConsoleError
  | Dispatch action
  | OnOpenChange bool
  | OnAuthComplete
  | SetShowAuthDialog bool
  | PreventDefault
  | StopPropagation

text \<open>
  \<open>onLogout\<close>, the click handler of the Clear link: it stops the click event, dispatches
  the null key and asks for the dialog.
\<close>

definition onLogout :: "call list" where
  "onLogout = [PreventDefault, StopPropagation, Dispatch (SET_API_KEY None), SetShowAuthDialog True]"

subsection \<open>State of the dialog component\<close>

text \<open>
  A field message is either the one the schema produces or the one \<open>form.setError\<close>
  attaches with \<open>type: "manual"\<close>.
\<close>

datatype field_error = Invalid string | Manual string

record AuthDialog_state =
  isBlinking :: bool
  error404 :: bool
  timer :: "nat option"
  phoneNumber :: string
  phoneNumber_error :: "field_error option"

text \<open>
  The first effect, \<open>useEffect(..., [error404])\<close>: it runs after a render in which
  \<open>error404\<close> differs from the previous render. The clean-up of the previous run clears
  its timer; then, if the flag is set, blinking starts and a timer of 1000 ms is armed.
  \<open>timer\<close> is the time left, in milliseconds, before the pending callback runs.
\<close>

definition error404_effect :: "AuthDialog_state \<Rightarrow> AuthDialog_state" where
  "error404_effect d =
     (if error404 d then d\<lparr>isBlinking := True, timer := Some 1000\<rparr>
      else d\<lparr>timer := None\<rparr>)"

text \<open>
  \<open>setError404(b)\<close>: a state setter called with the value the state already has changes
  nothing and no effect runs; otherwise the flag changes and its effect runs.
\<close>

definition setError404 :: "bool \<Rightarrow> AuthDialog_state \<Rightarrow> AuthDialog_state" where
  "setError404 b d = (if error404 d = b then d else error404_effect (d\<lparr>error404 := b\<rparr>))"

text \<open>
  Time passing: after \<open>ms\<close> milliseconds a pending timer has either run its callback
  \<open>setIsBlinking(false)\<close> or is \<open>ms\<close> closer to running it.
\<close>

definition advance :: "nat \<Rightarrow> AuthDialog_state \<Rightarrow> AuthDialog_state" where
  "advance ms d =
     (case timer d of
        None \<Rightarrow> d
      | Some t \<Rightarrow> if t \<le> ms then d\<lparr>isBlinking := False, timer := None\<rparr>
                  else d\<lparr>timer := Some (t - ms)\<rparr>)"

text \<open>
  The second effect, \<open>useEffect(..., [pgState.openaiAPIKey, form])\<close>, runs when the key
  differs from the one of the previous render and sets the field to
  \<open>pgState.openaiAPIKey || ""\<close>.
\<close>

definition prefill :: "string option \<Rightarrow> string" where
  "prefill k = (if truthy k then the k else [])"

definition form_setValue :: "string \<Rightarrow> AuthDialog_state \<Rightarrow> AuthDialog_state" where
  "form_setValue v d = d\<lparr>phoneNumber := v\<rparr>"

definition form_setError :: "string \<Rightarrow> AuthDialog_state \<Rightarrow> AuthDialog_state" where
  "form_setError msg d = d\<lparr>phoneNumber_error := Some (Manual msg)\<rparr>"

subsection \<open>Submission\<close>

text \<open>
  The remote call either rejects, or resolves to a response with a status whose body is
  then read by \<open>response.text()\<close>, which can reject in turn. Both rejections happen inside
  the \<open>try\<close> block.
\<close>

datatype error = FetchRejected | TextRejected

record response =
  status :: nat
  response_text :: "error + string"

definition endpoint :: "string \<Rightarrow> string" where
  "endpoint phone = ''http://localhost:5129/api/AppUser/GetAccessToken/'' @ phone"

definition catch_handler :: "AuthDialog_state \<Rightarrow> AuthDialog_state" where
  "catch_handler d = form_setError ''Failed to fetch API key. Please try again.'' d"

definition onSubmit ::
  "(string \<Rightarrow> error + response) \<Rightarrow> string \<Rightarrow> AuthDialog_state \<Rightarrow> AuthDialog_state \<times> call list" where
  "onSubmit fetch values_phoneNumber d =
     (let url = endpoint values_phoneNumber in
      case fetch url of
        Inl e \<Rightarrow> (catch_handler d, [Fetch url, ConsoleError])
      | Inr r \<Rightarrow>
          if status r = 404 then (setError404 True d, [Fetch url])
          else (case response_text r of
                  Inl e \<Rightarrow> (catch_handler d, [Fetch url, ConsoleError])
                | Inr apiKey \<Rightarrow>
                    (d, [Fetch url, Dispatch (SET_API_KEY (Some apiKey)),
                         OnOpenChange False, OnAuthComplete])))"

text \<open>
  \<open>AuthFormSchema\<close>: \<open>z.string().min(1, { message: "Phone number is required" })\<close>.
\<close>

definition AuthFormSchema :: "string \<Rightarrow> string + string" where
  "AuthFormSchema v = (if length v < 1 then Inl ''Phone number is required'' else Inr v)"

text \<open>
  \<open>form.handleSubmit(onSubmit)\<close> with the schema as resolver: the field value is
  validated first; a failure becomes the field's message and \<open>onSubmit\<close> is not called;
  otherwise earlier messages are dropped and \<open>onSubmit\<close> receives the validated value.
\<close>

definition handleSubmit ::
  "(string \<Rightarrow> error + response) \<Rightarrow> AuthDialog_state \<Rightarrow> AuthDialog_state \<times> call list" where
  "handleSubmit fetch d =
     (case AuthFormSchema (phoneNumber d) of
        Inl msg \<Rightarrow> (d\<lparr>phoneNumber_error := Some (Invalid msg)\<rparr>, [])
      | Inr v \<Rightarrow> onSubmit fetch v (d\<lparr>phoneNumber_error := None\<rparr>))"

subsection \<open>The two components together\<close>

record 'a playground =
  pgState :: "'a playground_state_scheme"
  showAuthDialog :: bool
  dialog :: AuthDialog_state

text \<open>
  Mounting: both flags start false, the form starts from its default value and the
  second effect runs once, copying the key.
\<close>

definition mount :: "'a playground_state_scheme \<Rightarrow> bool \<Rightarrow> 'a playground" where
  "mount pg shown =
     \<lparr>pgState = pg, showAuthDialog = shown,
      dialog = form_setValue (prefill (openaiAPIKey pg))
        \<lparr>isBlinking = False, error404 = False, timer = None,
         phoneNumber = [], phoneNumber_error = None\<rparr>\<rparr>"

definition apiKey_effect :: "string option \<Rightarrow> 'a playground \<Rightarrow> 'a playground" where
  "apiKey_effect previous s =
     (if openaiAPIKey (pgState s) = previous then s
      else s\<lparr>dialog := form_setValue (prefill (openaiAPIKey (pgState s))) (dialog s)\<rparr>)"

text \<open>
  \<open>Auth\<close> passes \<open>onOpenChange={setShowAuthDialog}\<close> and
  \<open>onAuthComplete={() => setShowAuthDialog(false)}\<close>. The request itself, the console
  and the click event change nothing in the playground.
\<close>

fun perform :: "'a playground \<Rightarrow> call \<Rightarrow> 'a playground" where
  "perform s (Dispatch a) =
     apiKey_effect (openaiAPIKey (pgState s)) (s\<lparr>pgState := reducer (pgState s) a\<rparr>)"
| "perform s (OnOpenChange b) = s\<lparr>showAuthDialog := b\<rparr>"
| "perform s OnAuthComplete = s\<lparr>showAuthDialog := False\<rparr>"
| "perform s (SetShowAuthDialog b) = s\<lparr>showAuthDialog := b\<rparr>"
| "perform s (Fetch url) = s"
| "perform s ConsoleError = s"
| "perform s PreventDefault = s"
| "perform s StopPropagation = s"

text \<open>
  What can happen to the mounted components: the form is submitted (the network behaves
  as the given function), the field is edited, the dialog is opened or closed through
  its open-change callback, Clear is clicked, time passes. An edit replaces the value of
  the field; the message under the field is tracked at submissions only. The component
  state outlives the closing of the dialog, since \<open>Auth\<close> keeps \<open>AuthDialog\<close> mounted
  and only passes it the \<open>open\<close> flag.
\<close>

datatype event =
    Submit "string \<Rightarrow> error + response"
  | Edit string
  | OpenChange bool
  | Logout
  | Tick nat

fun handle :: "'a playground \<Rightarrow> event \<Rightarrow> 'a playground \<times> call list" where
  "handle s (Submit fetch) =
     (case handleSubmit fetch (dialog s) of (d, calls) \<Rightarrow> (s\<lparr>dialog := d\<rparr>, calls))"
| "handle s (Edit v) = (s\<lparr>dialog := (dialog s)\<lparr>phoneNumber := v\<rparr>\<rparr>, [])"
| "handle s (OpenChange b) = (s, [OnOpenChange b])"
| "handle s Logout = (s, onLogout)"
| "handle s (Tick ms) = (s\<lparr>dialog := advance ms (dialog s)\<rparr>, [])"

definition calls_of :: "'a playground \<Rightarrow> event \<Rightarrow> call list" where
  "calls_of s e = snd (handle s e)"

definition step :: "'a playground \<Rightarrow> event \<Rightarrow> 'a playground" where
  "step s e = foldl perform (fst (handle s e)) (snd (handle s e))"

fun run :: "'a playground \<Rightarrow> event list \<Rightarrow> 'a playground" where
  "run s [] = s"
| "run s (e # es) = run (step s e) es"

fun trace :: "'a playground \<Rightarrow> event list \<Rightarrow> call list" where
  "trace s [] = []"
| "trace s (e # es) = calls_of s e @ trace (step s e) es"

fun is_Dispatch :: "call \<Rightarrow> bool" where
  "is_Dispatch (Dispatch a) = True"
| "is_Dispatch c = False"

fun is_Fetch :: "call \<Rightarrow> bool" where
  "is_Fetch (Fetch url) = True"
| "is_Fetch c = False"

text \<open>Events that neither submit the form nor click Clear.\<close>

fun no_submission :: "event \<Rightarrow> bool" where
  "no_submission (Submit fetch) = False"
| "no_submission Logout = False"
| "no_submission e = True"

subsection \<open>Sample networks\<close>

text \<open>
  A service that knows one registered number and answers 404 for every other, a service
  that answers every request with an error status and a body, one whose body cannot be
  read, one that answers with an empty body, and no network at all.
\<close>

definition registry :: "string \<Rightarrow> error + response" where
  "registry url =
     (if url = endpoint ''09120674032'' then Inr \<lparr>status = 200, response_text = Inr ''abc123''\<rparr>
      else Inr \<lparr>status = 404, response_text = Inr ''''\<rparr>)"

definition failing_service :: "string \<Rightarrow> error + response" where
  "failing_service url = Inr \<lparr>status = 500, response_text = Inr ''Internal Server Error''\<rparr>"

definition broken_body :: "string \<Rightarrow> error + response" where
  "broken_body url = Inr \<lparr>status = 200, response_text = Inl TextRejected\<rparr>"

definition empty_body :: "string \<Rightarrow> error + response" where
  "empty_body url = Inr \<lparr>status = 200, response_text = Inr ''''\<rparr>"

definition offline :: "string \<Rightarrow> error + response" where
  "offline url = Inl FetchRejected"

definition fresh :: "unit playground" where
  "fresh = mount \<lparr>openaiAPIKey = None\<rparr> True"

text \<open>
  Sample states: the freshly mounted dialog after the registered number has been typed,
  after an unknown number has been typed, after an unknown number has been submitted and
  the blink has run out, and the components mounted with a key already stored.
\<close>

definition typed :: "unit playground" where
  "typed = step fresh (Edit ''09120674032'')"

definition mistyped :: "unit playground" where
  "mistyped = step fresh (Edit ''0000'')"

definition settled :: "unit playground" where
  "settled = run fresh [Edit ''0000'', Submit registry, Tick 1000]"

definition signed_in :: "unit playground" where
  "signed_in = mount \<lparr>openaiAPIKey = Some ''abc123''\<rparr> False"

section \<open>Properties\<close>

subsection \<open>The sample states and networks, evaluated\<close>

lemma typed_eq:
  "typed = \<lparr>pgState = \<lparr>openaiAPIKey = None\<rparr>, showAuthDialog = True,
     dialog = \<lparr>isBlinking = False, error404 = False, timer = None,
       phoneNumber = ''09120674032'', phoneNumber_error = None\<rparr>\<rparr>"
  by code_simp

lemma mistyped_eq:
  "mistyped = \<lparr>pgState = \<lparr>openaiAPIKey = None\<rparr>, showAuthDialog = True,
     dialog = \<lparr>isBlinking = False, error404 = False, timer = None,
       phoneNumber = ''0000'', phoneNumber_error = None\<rparr>\<rparr>"
  by code_simp

lemma settled_eq:
  "settled = \<lparr>pgState = \<lparr>openaiAPIKey = None\<rparr>, showAuthDialog = True,
     dialog = \<lparr>isBlinking = False, error404 = True, timer = None,
       phoneNumber = ''0000'', phoneNumber_error = None\<rparr>\<rparr>"
  by code_simp

lemma signed_in_eq:
  "signed_in = \<lparr>pgState = \<lparr>openaiAPIKey = Some ''abc123''\<rparr>, showAuthDialog = False,
     dialog = \<lparr>isBlinking = False, error404 = False, timer = None,
       phoneNumber = ''abc123'', phoneNumber_error = None\<rparr>\<rparr>"
  by code_simp

lemma registry_known:
  "registry (endpoint ''09120674032'') = Inr \<lparr>status = 200, response_text = Inr ''abc123''\<rparr>"
  by (simp add: registry_def)

lemma registry_unknown:
  "registry (endpoint ''0000'') = Inr \<lparr>status = 404, response_text = Inr ''''\<rparr>"
  by (simp add: registry_def endpoint_def)

subsection \<open>What a submission does, case by case\<close>

lemma handle_Submit_ok:
  assumes "phoneNumber (dialog s) \<noteq> []"
    and "fetch (endpoint (phoneNumber (dialog s))) = Inr r"
    and "status r \<noteq> 404"
    and "response_text r = Inr body"
  shows "handle s (Submit fetch) =
     (s\<lparr>dialog := (dialog s)\<lparr>phoneNumber_error := None\<rparr>\<rparr>,
      [Fetch (endpoint (phoneNumber (dialog s))), Dispatch (SET_API_KEY (Some body)),
       OnOpenChange False, OnAuthComplete])"
  using assms by (simp add: handleSubmit_def AuthFormSchema_def onSubmit_def)

lemma handle_Submit_unreadable:
  assumes "phoneNumber (dialog s) \<noteq> []"
    and "fetch (endpoint (phoneNumber (dialog s))) = Inr r"
    and "status r \<noteq> 404"
    and "response_text r = Inl e"
  shows "handle s (Submit fetch) =
     (s\<lparr>dialog := (dialog s)\<lparr>phoneNumber_error :=
            Some (Manual ''Failed to fetch API key. Please try again.'')\<rparr>\<rparr>,
      [Fetch (endpoint (phoneNumber (dialog s))), ConsoleError])"
  using assms
  by (simp add: handleSubmit_def AuthFormSchema_def onSubmit_def catch_handler_def
      form_setError_def)

lemma handle_Submit_404:
  assumes "phoneNumber (dialog s) \<noteq> []"
    and "fetch (endpoint (phoneNumber (dialog s))) = Inr r"
    and "status r = 404"
  shows "handle s (Submit fetch) =
     (s\<lparr>dialog := setError404 True ((dialog s)\<lparr>phoneNumber_error := None\<rparr>)\<rparr>,
      [Fetch (endpoint (phoneNumber (dialog s)))])"
  using assms by (simp add: handleSubmit_def AuthFormSchema_def onSubmit_def)

lemma handle_Submit_rejected:
  assumes "phoneNumber (dialog s) \<noteq> []"
    and "fetch (endpoint (phoneNumber (dialog s))) = Inl e"
  shows "handle s (Submit fetch) =
     (s\<lparr>dialog := (dialog s)\<lparr>phoneNumber_error :=
            Some (Manual ''Failed to fetch API key. Please try again.'')\<rparr>\<rparr>,
      [Fetch (endpoint (phoneNumber (dialog s))), ConsoleError])"
  using assms
  by (simp add: handleSubmit_def AuthFormSchema_def onSubmit_def catch_handler_def
      form_setError_def)

lemma handle_Submit_empty:
  assumes "phoneNumber (dialog s) = []"
  shows "handle s (Submit fetch) =
     (s\<lparr>dialog := (dialog s)\<lparr>phoneNumber_error :=
            Some (Invalid ''Phone number is required'')\<rparr>\<rparr>, [])"
  using assms by (simp add: handleSubmit_def AuthFormSchema_def)

text \<open>
  A response whose body cannot be read ends in the \<open>catch\<close> block like a failed request:
  nothing is dispatched and neither callback is called.
\<close>

lemma unreadable_body_is_caught:
  assumes "phoneNumber (dialog s) \<noteq> []"
    and "fetch (endpoint (phoneNumber (dialog s))) = Inr r"
    and "status r \<noteq> 404"
    and "response_text r = Inl e"
  shows "calls_of s (Submit fetch) = [Fetch (endpoint (phoneNumber (dialog s))), ConsoleError]
         \<and> pgState (step s (Submit fetch)) = pgState s
         \<and> showAuthDialog (step s (Submit fetch)) = showAuthDialog s"
  using handle_Submit_unreadable[of s fetch r e] assms
  by (simp add: calls_of_def step_def)

lemma broken_body_example:
  "step typed (Submit broken_body) =
     \<lparr>pgState = \<lparr>openaiAPIKey = None\<rparr>, showAuthDialog = True,
      dialog = \<lparr>isBlinking = False, error404 = False, timer = None,
        phoneNumber = ''09120674032'',
        phoneNumber_error = Some (Manual ''Failed to fetch API key. Please try again.'')\<rparr>\<rparr>"
  by code_simp

subsection \<open>The error flag under every handler\<close>

lemma error404_advance: "error404 (advance ms d) = error404 d"
  by (simp add: advance_def split: option.splits)

lemma error404_onSubmit: "error404 d \<Longrightarrow> error404 (fst (onSubmit fetch v d))"
  by (simp add: onSubmit_def Let_def catch_handler_def form_setError_def setError404_def
      split: sum.splits)

lemma error404_handleSubmit: "error404 d \<Longrightarrow> error404 (fst (handleSubmit fetch d))"
  by (simp add: handleSubmit_def error404_onSubmit split: sum.splits)

lemma error404_perform: "error404 (dialog (perform s c)) = error404 (dialog s)"
  by (cases c) (simp_all add: apiKey_effect_def form_setValue_def)

lemma error404_foldl_perform: "error404 (dialog (foldl perform s cs)) = error404 (dialog s)"
  by (induction cs arbitrary: s) (simp_all add: error404_perform)

lemma error404_step:
  assumes "error404 (dialog s)"
  shows "error404 (dialog (step s e))"
proof (cases e)
  case (Submit fetch)
  obtain d cs where h: "handleSubmit fetch (dialog s) = (d, cs)"
    by (cases "handleSubmit fetch (dialog s)")
  with error404_handleSubmit[OF assms, of fetch] have "error404 d" by simp
  with h Submit show ?thesis
    by (simp add: step_def error404_foldl_perform)
next
  case (Edit v)
  with assms show ?thesis by (simp add: step_def)
next
  case (OpenChange b)
  with assms show ?thesis by (simp add: step_def)
next
  case Logout
  with assms show ?thesis by (simp add: step_def error404_foldl_perform)
next
  case (Tick ms)
  with assms show ?thesis by (simp add: step_def error404_advance)
qed

subsection \<open>Events without a submission\<close>

lemma no_submission_step:
  assumes "no_submission e"
  shows "filter is_Dispatch (calls_of s e) = [] \<and> pgState (step s e) = pgState s"
  using assms by (cases e) (simp_all add: calls_of_def step_def)

section \<open>The claims\<close>

subsection \<open>Submitting the form\<close>

text \<open>
  C1. A non-empty phone number is submitted and the remote call resolves to a response
  whose status is not 404 and whose body reads as the text \<open>body\<close>. Then the handler
  makes exactly four calls, in this order: the request, the dispatch of \<open>body\<close> as the API
  key, the open-change callback with false, and the completion callback, the last one
  once. Carried out by \<open>Auth\<close>, the stored key is \<open>body\<close> and the dialog is closed.
  No status other than 404 is singled out, so error statuses are stored as keys too.
\<close>

theorem submit_stores_response_body:
  assumes "phoneNumber (dialog s) \<noteq> []"
    and "fetch (endpoint (phoneNumber (dialog s))) = Inr r"
    and "status r \<noteq> 404"
    and "response_text r = Inr body"
  shows "calls_of s (Submit fetch) =
           [Fetch (endpoint (phoneNumber (dialog s))), Dispatch (SET_API_KEY (Some body)),
            OnOpenChange False, OnAuthComplete]
         \<and> openaiAPIKey (pgState (step s (Submit fetch))) = Some body
         \<and> \<not> showAuthDialog (step s (Submit fetch))
         \<and> count_list (calls_of s (Submit fetch)) OnAuthComplete = 1"
  using handle_Submit_ok[of s fetch r body] assms
  by (simp add: calls_of_def step_def apiKey_effect_def)

theorem submit_stores_response_body_witness:
  "phoneNumber (dialog typed) \<noteq> []
   \<and> registry (endpoint (phoneNumber (dialog typed))) =
       Inr \<lparr>status = 200, response_text = Inr ''abc123''\<rparr>
   \<and> calls_of typed (Submit registry) =
       [Fetch ''http://localhost:5129/api/AppUser/GetAccessToken/09120674032'',
        Dispatch (SET_API_KEY (Some ''abc123'')), OnOpenChange False, OnAuthComplete]
   \<and> openaiAPIKey (pgState (step typed (Submit registry))) = Some ''abc123''
   \<and> \<not> showAuthDialog (step typed (Submit registry))
   \<and> count_list (calls_of typed (Submit registry)) OnAuthComplete = 1
   \<and> failing_service (endpoint (phoneNumber (dialog typed))) =
       Inr \<lparr>status = 500, response_text = Inr ''Internal Server Error''\<rparr>
   \<and> openaiAPIKey (pgState (step typed (Submit failing_service))) =
       Some ''Internal Server Error''
   \<and> \<not> showAuthDialog (step typed (Submit failing_service))"
proof -
  have h1: "phoneNumber (dialog typed) \<noteq> []"
    by (simp add: typed_eq)
  have h2: "registry (endpoint (phoneNumber (dialog typed))) =
      Inr \<lparr>status = 200, response_text = Inr ''abc123''\<rparr>"
    by (simp add: typed_eq registry_known)
  have h3: "failing_service (endpoint (phoneNumber (dialog typed))) =
      Inr \<lparr>status = 500, response_text = Inr ''Internal Server Error''\<rparr>"
    by (simp add: failing_service_def)
  have e: "endpoint (phoneNumber (dialog typed)) =
      ''http://localhost:5129/api/AppUser/GetAccessToken/09120674032''"
    by (simp add: typed_eq endpoint_def)
  from submit_stores_response_body
         [of typed registry "\<lparr>status = 200, response_text = Inr ''abc123''\<rparr>" "''abc123''"]
    submit_stores_response_body
         [of typed failing_service
           "\<lparr>status = 500, response_text = Inr ''Internal Server Error''\<rparr>"
           "''Internal Server Error''"]
    h1 h2 h3 e
  show ?thesis by simp
qed

text \<open>
  C2, as amended. A non-empty phone number is submitted and the remote call resolves to
  a response with status 404. Then the request is the only call the handler makes:
  nothing is dispatched, neither callback is called, shared state and the dialog's open
  flag are as before, and the error flag is true afterwards. If the error flag was
  false before the submission, blinking is on right after it, stays on while less than
  1000 ms have passed and is off once 1000 ms have passed, the error flag staying true
  throughout. If the error flag was already true, the submission leaves the blink state
  and the pending timer as they were.
\<close>

theorem submit_not_found:
  assumes "phoneNumber (dialog s) \<noteq> []"
    and "fetch (endpoint (phoneNumber (dialog s))) = Inr r"
    and "status r = 404"
  shows "calls_of s (Submit fetch) = [Fetch (endpoint (phoneNumber (dialog s)))]
         \<and> error404 (dialog (step s (Submit fetch)))
         \<and> pgState (step s (Submit fetch)) = pgState s
         \<and> showAuthDialog (step s (Submit fetch)) = showAuthDialog s
         \<and> (\<not> error404 (dialog s) \<longrightarrow>
              isBlinking (dialog (step s (Submit fetch)))
              \<and> (\<forall>ms. ms < 1000 \<longrightarrow>
                    isBlinking (dialog (step (step s (Submit fetch)) (Tick ms)))
                    \<and> error404 (dialog (step (step s (Submit fetch)) (Tick ms))))
              \<and> (\<forall>ms. 1000 \<le> ms \<longrightarrow>
                    \<not> isBlinking (dialog (step (step s (Submit fetch)) (Tick ms)))
                    \<and> error404 (dialog (step (step s (Submit fetch)) (Tick ms)))))
         \<and> (error404 (dialog s) \<longrightarrow>
              isBlinking (dialog (step s (Submit fetch))) = isBlinking (dialog s)
              \<and> timer (dialog (step s (Submit fetch))) = timer (dialog s))"
  using handle_Submit_404[of s fetch r] assms
  by (simp add: calls_of_def step_def setError404_def error404_effect_def advance_def)

theorem submit_not_found_witness:
  "phoneNumber (dialog mistyped) \<noteq> []
   \<and> registry (endpoint (phoneNumber (dialog mistyped))) =
       Inr \<lparr>status = 404, response_text = Inr ''''\<rparr>
   \<and> \<not> error404 (dialog mistyped)
   \<and> error404 (dialog (step mistyped (Submit registry)))
   \<and> showAuthDialog (step mistyped (Submit registry))
   \<and> isBlinking (dialog (step mistyped (Submit registry)))
   \<and> isBlinking (dialog (step (step mistyped (Submit registry)) (Tick 999)))
   \<and> \<not> isBlinking (dialog (step (step mistyped (Submit registry)) (Tick 1000)))
   \<and> error404 (dialog (step (step mistyped (Submit registry)) (Tick 1000)))
   \<and> phoneNumber (dialog settled) \<noteq> []
   \<and> registry (endpoint (phoneNumber (dialog settled))) =
       Inr \<lparr>status = 404, response_text = Inr ''''\<rparr>
   \<and> error404 (dialog settled)
   \<and> isBlinking (dialog (step settled (Submit registry))) = isBlinking (dialog settled)"
proof -
  have h1: "phoneNumber (dialog mistyped) \<noteq> []"
    by (simp add: mistyped_eq)
  have h2: "registry (endpoint (phoneNumber (dialog mistyped))) =
      Inr \<lparr>status = 404, response_text = Inr ''''\<rparr>"
    by (simp add: mistyped_eq registry_unknown)
  have h3: "\<not> error404 (dialog mistyped)"
    by (simp add: mistyped_eq)
  have h4: "showAuthDialog mistyped"
    by (simp add: mistyped_eq)
  have g1: "phoneNumber (dialog settled) \<noteq> []"
    by (simp add: settled_eq)
  have g2: "registry (endpoint (phoneNumber (dialog settled))) =
      Inr \<lparr>status = 404, response_text = Inr ''''\<rparr>"
    by (simp add: settled_eq registry_unknown)
  have g3: "error404 (dialog settled)"
    by (simp add: settled_eq)
  note first = submit_not_found
         [of mistyped registry "\<lparr>status = 404, response_text = Inr ''''\<rparr>"]
  note again = submit_not_found
         [of settled registry "\<lparr>status = 404, response_text = Inr ''''\<rparr>"]
  from first h1 h2 h3 h4 again g1 g2 g3 show ?thesis by simp
qed

theorem repeated_not_found_does_not_blink:
  "registry (endpoint ''0000'') = Inr \<lparr>status = 404, response_text = Inr ''''\<rparr>
   \<and> phoneNumber (dialog (run fresh [Edit ''0000'', Submit registry, Tick 1000])) = ''0000''
   \<and> showAuthDialog (run fresh [Edit ''0000'', Submit registry, Tick 1000])
   \<and> \<not> isBlinking (dialog (run fresh [Edit ''0000'', Submit registry, Tick 1000]))
   \<and> \<not> isBlinking (dialog
         (run fresh [Edit ''0000'', Submit registry, Tick 1000, Submit registry]))
   \<and> \<not> isBlinking (dialog
         (run fresh [Edit ''0000'', Submit registry, Tick 1000, Submit registry, Tick 500]))"
  by code_simp

text \<open>
  C3. A non-empty phone number is submitted and the remote call rejects. Then the
  handler returns normally, having made the request and logged to the console and
  nothing else: nothing is dispatched, shared state and the dialog's open flag are as
  before, and the phone-number field carries the manual message
  "Failed to fetch API key. Please try again.".
\<close>

theorem submit_fetch_rejected:
  assumes "phoneNumber (dialog s) \<noteq> []"
    and "fetch (endpoint (phoneNumber (dialog s))) = Inl e"
  shows "calls_of s (Submit fetch) = [Fetch (endpoint (phoneNumber (dialog s))), ConsoleError]
         \<and> phoneNumber_error (dialog (step s (Submit fetch))) =
             Some (Manual ''Failed to fetch API key. Please try again.'')
         \<and> filter is_Dispatch (calls_of s (Submit fetch)) = []
         \<and> pgState (step s (Submit fetch)) = pgState s
         \<and> showAuthDialog (step s (Submit fetch)) = showAuthDialog s"
  using handle_Submit_rejected[of s fetch e] assms
  by (simp add: calls_of_def step_def)

theorem submit_fetch_rejected_witness:
  "phoneNumber (dialog typed) \<noteq> []
   \<and> offline (endpoint (phoneNumber (dialog typed))) = Inl FetchRejected
   \<and> phoneNumber_error (dialog (step typed (Submit offline))) =
       Some (Manual ''Failed to fetch API key. Please try again.'')
   \<and> pgState (step typed (Submit offline)) = \<lparr>openaiAPIKey = None\<rparr>
   \<and> showAuthDialog (step typed (Submit offline))"
proof -
  have h1: "phoneNumber (dialog typed) \<noteq> []"
    by (simp add: typed_eq)
  have h2: "offline (endpoint (phoneNumber (dialog typed))) = Inl FetchRejected"
    by (simp add: offline_def)
  have h3: "pgState typed = \<lparr>openaiAPIKey = None\<rparr>" "showAuthDialog typed"
    by (simp_all add: typed_eq)
  from submit_fetch_rejected[of typed offline FetchRejected] h1 h2 h3
  show ?thesis by simp
qed

text \<open>
  C4. When the phone-number field is the empty string, submitting calls nothing: the
  submit handler is not reached, so no request is made, and the field carries the
  schema's message "Phone number is required". Shared state and the dialog's open flag
  are as before.
\<close>

theorem submit_empty_blocked:
  assumes "phoneNumber (dialog s) = []"
  shows "calls_of s (Submit fetch) = []
         \<and> filter is_Fetch (calls_of s (Submit fetch)) = []
         \<and> phoneNumber_error (dialog (step s (Submit fetch))) =
             Some (Invalid ''Phone number is required'')
         \<and> pgState (step s (Submit fetch)) = pgState s
         \<and> showAuthDialog (step s (Submit fetch)) = showAuthDialog s"
  using handle_Submit_empty[of s fetch] assms
  by (simp add: calls_of_def step_def)

theorem submit_empty_blocked_witness:
  "phoneNumber (dialog fresh) = []
   \<and> calls_of fresh (Submit registry) = []
   \<and> phoneNumber_error (dialog (step fresh (Submit registry))) =
       Some (Invalid ''Phone number is required'')"
proof -
  have h: "phoneNumber (dialog fresh) = []"
    by (simp add: fresh_def mount_def form_setValue_def prefill_def)
  from submit_empty_blocked[of fresh registry] h show ?thesis by simp
qed

text \<open>
  C10. A non-empty phone number is submitted and the remote call resolves to a response
  whose status is not 404 and whose body is empty. Then the empty string is dispatched
  as the API key, the open-change callback is called with false and the completion
  callback is called; afterwards the stored key is the empty string, the dialog is
  closed, and the status indicator renders nothing, as it does without a key.
\<close>

theorem submit_empty_body:
  assumes "phoneNumber (dialog s) \<noteq> []"
    and "fetch (endpoint (phoneNumber (dialog s))) = Inr r"
    and "status r \<noteq> 404"
    and "response_text r = Inr []"
  shows "calls_of s (Submit fetch) =
           [Fetch (endpoint (phoneNumber (dialog s))), Dispatch (SET_API_KEY (Some [])),
            OnOpenChange False, OnAuthComplete]
         \<and> openaiAPIKey (pgState (step s (Submit fetch))) = Some []
         \<and> \<not> showAuthDialog (step s (Submit fetch))
         \<and> Auth_indicator (pgState (step s (Submit fetch))) = None
         \<and> Auth_indicator (pgState (step s (Submit fetch))) =
             Auth_indicator ((pgState s)\<lparr>openaiAPIKey := None\<rparr>)"
proof -
  note h = handle_Submit_ok[of s fetch r "[]", OF assms]
  have calls: "calls_of s (Submit fetch) =
      [Fetch (endpoint (phoneNumber (dialog s))), Dispatch (SET_API_KEY (Some [])),
       OnOpenChange False, OnAuthComplete]"
    using h by (simp add: calls_of_def)
  have key: "openaiAPIKey (pgState (step s (Submit fetch))) = Some []"
    using h by (simp add: step_def apiKey_effect_def)
  have closed: "\<not> showAuthDialog (step s (Submit fetch))"
    using h by (simp add: step_def)
  have hidden: "Auth_indicator (pgState (step s (Submit fetch))) = None"
    using key by (simp add: Auth_indicator_def)
  have same: "Auth_indicator ((pgState s)\<lparr>openaiAPIKey := None\<rparr>) = None"
    by (simp add: Auth_indicator_def)
  have eq: "Auth_indicator (pgState (step s (Submit fetch))) =
      Auth_indicator ((pgState s)\<lparr>openaiAPIKey := None\<rparr>)"
    by (simp only: hidden same)
  show ?thesis
    by (intro conjI) (rule calls key closed hidden eq)+
qed

theorem submit_empty_body_witness:
  "phoneNumber (dialog typed) \<noteq> []
   \<and> empty_body (endpoint (phoneNumber (dialog typed))) =
       Inr \<lparr>status = 200, response_text = Inr []\<rparr>
   \<and> openaiAPIKey (pgState (step typed (Submit empty_body))) = Some []
   \<and> \<not> showAuthDialog (step typed (Submit empty_body))
   \<and> Auth_indicator (pgState (step typed (Submit empty_body))) = None"
proof -
  have h1: "phoneNumber (dialog typed) \<noteq> []"
    by (simp add: typed_eq)
  have h2: "empty_body (endpoint (phoneNumber (dialog typed))) =
      Inr \<lparr>status = 200, response_text = Inr []\<rparr>"
    by (simp add: empty_body_def)
  from submit_empty_body[of typed empty_body "\<lparr>status = 200, response_text = Inr []\<rparr>"]
    h1 h2
  show ?thesis by simp
qed

subsection \<open>The error banner\<close>

text \<open>
  C5, as amended. No operation of the component resets the error flag: once it is true
  it is still true after every sequence of submissions (whatever the network answers,
  a successful exchange included), edits, openings and closings of the dialog, clicks on
  Clear and passages of time.
\<close>

theorem error404_never_reset:
  assumes "error404 (dialog s)"
  shows "error404 (dialog (run s es))"
  using assms by (induction es arbitrary: s) (simp_all add: error404_step)

theorem error404_never_reset_witness:
  "error404 (dialog settled)
   \<and> error404 (dialog (run settled
        [Edit ''09120674032'', Submit registry, Logout, OpenChange False, OpenChange True,
         Tick 5000]))"
proof -
  have h: "error404 (dialog settled)"
    by (simp add: settled_eq)
  from error404_never_reset[of settled
      "[Edit ''09120674032'', Submit registry, Logout, OpenChange False, OpenChange True,
        Tick 5000]"] h
  show ?thesis by simp
qed

theorem error404_survives_success_and_reopening:
  "error404 (dialog (run fresh [Edit ''0000'', Submit registry]))
   \<and> openaiAPIKey (pgState
        (run fresh [Edit ''0000'', Submit registry, Edit ''09120674032'', Submit registry])) =
       Some ''abc123''
   \<and> \<not> showAuthDialog
        (run fresh [Edit ''0000'', Submit registry, Edit ''09120674032'', Submit registry])
   \<and> error404 (dialog
        (run fresh [Edit ''0000'', Submit registry, Edit ''09120674032'', Submit registry]))
   \<and> error404 (dialog
        (run fresh [Edit ''0000'', Submit registry, OpenChange False, OpenChange True]))
   \<and> error404 (dialog
        (run fresh [Edit ''0000'', Submit registry, Edit ''09120674032'', Submit registry,
                    Logout]))"
  by code_simp

subsection \<open>Prefilling the field\<close>

text \<open>
  C6, as amended. Whenever a dispatch changes the shared API key to a string, the
  phone-number field is set to that string, character for character; when it changes
  the key to null, the field is set to the empty string.
\<close>

theorem key_change_sets_field:
  assumes "openaiAPIKey (pgState s) \<noteq> k"
  shows "openaiAPIKey (pgState (perform s (Dispatch (SET_API_KEY k)))) = k
         \<and> phoneNumber (dialog (perform s (Dispatch (SET_API_KEY k)))) =
             (case k of None \<Rightarrow> [] | Some v \<Rightarrow> v)"
  using assms by (cases k) (auto simp add: apiKey_effect_def form_setValue_def prefill_def)

theorem key_change_sets_field_witness:
  "openaiAPIKey (pgState typed) \<noteq> Some ''abc123''
   \<and> phoneNumber (dialog typed) = ''09120674032''
   \<and> phoneNumber (dialog (perform typed (Dispatch (SET_API_KEY (Some ''abc123''))))) = ''abc123''"
proof -
  have h: "openaiAPIKey (pgState typed) \<noteq> Some ''abc123''"
    by (simp add: typed_eq)
  have p: "phoneNumber (dialog typed) = ''09120674032''"
    by (simp add: typed_eq)
  from key_change_sets_field[of typed "Some ''abc123''"] h p show ?thesis by simp
qed

theorem null_key_leaves_empty_field:
  "openaiAPIKey (pgState signed_in) = Some ''abc123''
   \<and> phoneNumber (dialog signed_in) = ''abc123''
   \<and> openaiAPIKey (pgState (step signed_in Logout)) = None
   \<and> phoneNumber (dialog (step signed_in Logout)) = []
   \<and> Some (phoneNumber (dialog (step signed_in Logout))) \<noteq>
       openaiAPIKey (pgState (step signed_in Logout))"
  by code_simp

subsection \<open>The status indicator and its Clear link\<close>

text \<open>
  C7. The indicator is rendered exactly when the shared API key is a non-empty string.
  When it is rendered, it shows the first 4 characters of the key, an ellipsis and the
  last 4 characters of the key (for a key of at least 4 characters these are two pieces
  of exactly 4 characters). When the key is null or the empty string, nothing is
  rendered.
\<close>

theorem indicator_masks_key:
  "(Auth_indicator pg \<noteq> None) = (\<exists>k. openaiAPIKey pg = Some k \<and> k \<noteq> [])
   \<and> (\<forall>k. openaiAPIKey pg = Some k \<and> k \<noteq> [] \<longrightarrow>
         Auth_indicator pg = Some (take 4 k @ ''...'' @ drop (length k - 4) k)
         \<and> (4 \<le> length k \<longrightarrow>
               length (take 4 k) = 4 \<and> length (drop (length k - 4) k) = 4))
   \<and> (openaiAPIKey pg = None \<or> openaiAPIKey pg = Some [] \<longrightarrow> Auth_indicator pg = None)"
  by (cases "openaiAPIKey pg") (auto simp add: Auth_indicator_def ellipsisMiddle_def)

theorem indicator_masks_key_witness:
  "openaiAPIKey \<lparr>openaiAPIKey = Some ''sk-abcdef123456''\<rparr> = Some ''sk-abcdef123456''
   \<and> Auth_indicator \<lparr>openaiAPIKey = Some ''sk-abcdef123456''\<rparr> = Some ''sk-a...3456''
   \<and> Auth_indicator \<lparr>openaiAPIKey = None\<rparr> = None
   \<and> Auth_indicator \<lparr>openaiAPIKey = Some []\<rparr> = None"
  using indicator_masks_key[of "\<lparr>openaiAPIKey = Some ''sk-abcdef123456''\<rparr>"]
    indicator_masks_key[of "\<lparr>openaiAPIKey = None\<rparr>"]
    indicator_masks_key[of "\<lparr>openaiAPIKey = Some []\<rparr>"]
  by simp

text \<open>
  C8. Clicking Clear dispatches exactly one action, SET_API_KEY with payload null, and
  calls \<open>setShowAuthDialog(true)\<close>; besides stopping the click event it calls nothing
  else. Afterwards the shared API key is null, the dialog-visible flag is true and
  every other field of the shared state is as before.
\<close>

theorem logout_clears_key:
  "calls_of s Logout =
     [PreventDefault, StopPropagation, Dispatch (SET_API_KEY None), SetShowAuthDialog True]
   \<and> filter is_Dispatch (calls_of s Logout) = [Dispatch (SET_API_KEY None)]
   \<and> openaiAPIKey (pgState (step s Logout)) = None
   \<and> showAuthDialog (step s Logout)
   \<and> playground_state.more (pgState (step s Logout)) = playground_state.more (pgState s)"
  by (simp add: calls_of_def step_def onLogout_def apiKey_effect_def)

theorem logout_clears_key_witness:
  "openaiAPIKey (pgState signed_in) = Some ''abc123''
   \<and> \<not> showAuthDialog signed_in
   \<and> openaiAPIKey (pgState (step signed_in Logout)) = None
   \<and> showAuthDialog (step signed_in Logout)"
  using logout_clears_key[of signed_in] by (simp add: signed_in_eq)

subsection \<open>Opening and closing without submitting\<close>

text \<open>
  C9. From every state, a sequence of events that holds no submission (and no click on
  Clear), that is, only openings and closings of the dialog, edits of the field and
  passages of time, dispatches nothing, and the shared state at the end is the shared
  state at the start.
\<close>

theorem no_submission_no_dispatch:
  assumes "list_all no_submission es"
  shows "filter is_Dispatch (trace s es) = [] \<and> pgState (run s es) = pgState s"
  using assms
proof (induction es arbitrary: s)
  case Nil
  show ?case by simp
next
  case (Cons e es)
  then have e: "no_submission e" and es: "list_all no_submission es"
    by simp_all
  from no_submission_step[OF e, of s] Cons.IH[OF es, of "step s e"]
  show ?case by simp
qed

theorem no_submission_no_dispatch_witness:
  "list_all no_submission [OpenChange True, Edit ''0912'', Tick 500, OpenChange False]
   \<and> filter is_Dispatch
       (trace signed_in [OpenChange True, Edit ''0912'', Tick 500, OpenChange False]) = []
   \<and> pgState (run signed_in [OpenChange True, Edit ''0912'', Tick 500, OpenChange False]) =
       \<lparr>openaiAPIKey = Some ''abc123''\<rparr>"
proof -
  have h: "list_all no_submission [OpenChange True, Edit ''0912'', Tick 500, OpenChange False]"
    by simp
  have p: "pgState signed_in = \<lparr>openaiAPIKey = Some ''abc123''\<rparr>"
    by (simp add: signed_in_eq)
  from no_submission_no_dispatch
         [of "[OpenChange True, Edit ''0912'', Tick 500, OpenChange False]" signed_in] h p
  show ?thesis by simp
qed

end
